theory Spec2Isabelle
  imports Main "HOL-Library.List_Lexorder" "HOL-Library.Char_ord"
begin

section \<open>Request models and collection schemas\<close>

text \<open>
  The request bodies of \<^verbatim>\<open>main.py\<close> (\<^verbatim>\<open>CreateUser\<close>, \<^verbatim>\<open>CreateTasktype\<close>,
  \<^verbatim>\<open>CreateRoster\<close>) and the collection schemas of \<^verbatim>\<open>schemas.py\<close> (\<^verbatim>\<open>User\<close>,
  \<^verbatim>\<open>Tasktype\<close>, \<^verbatim>\<open>Roster\<close>). A Python \<^verbatim>\<open>str\<close> is a \<open>string\<close> (its UTF-8 bytes),
  \<^verbatim>\<open>Optional[str]\<close> a \<open>string option\<close>. A handler runs only on a body the framework
  has already parsed into the request model, so a value of \<open>CreateUser\<close> carries an
  \<^verbatim>\<open>email\<close> that has passed \<^verbatim>\<open>EmailStr\<close>; its \<^verbatim>\<open>role\<close> is any \<^verbatim>\<open>str\<close>.
\<close>

record CreateUser =
  name :: string
  email :: string
  alias' :: "string option"
  role :: string
  manager_id :: "string option"
  geo :: "string option"
  timezone :: "string option"

record CreateTasktype =
  name :: string
  code :: "string option"
  description :: "string option"
  active :: bool

record CreateRoster =
  user_id :: string
  tasktype_id :: string
  start_time :: string
  end_time :: string
  timezone :: "string option"
  notes' :: "string option"

record User =
  name :: string
  email :: string
  alias' :: "string option"
  role :: string
  manager_id :: "string option"
  geo :: "string option"
  timezone :: "string option"
  is_active :: bool

record Tasktype =
  name :: string
  code :: "string option"
  description :: "string option"
  active :: bool

record Roster =
  user_id :: string
  tasktype_id :: string
  start_time :: string
  end_time :: string
  timezone :: "string option"
  notes' :: "string option"

section \<open>Exceptions and their HTTP report\<close>

text \<open>
  What a handler can raise. \<open>HTTPException status detail\<close> is the only exception the
  handlers raise themselves. \<open>PydanticValidationError\<close> is raised by a schema
  constructor inside a handler, \<open>ValueError\<close> by \<^verbatim>\<open>datetime.fromisoformat\<close>,
  \<open>TypeError\<close> by comparing an offset-naive with an offset-aware datetime.
\<close>

datatype exn =
  HTTPException nat string
  | PydanticValidationError
  | ValueError
  | TypeError

text \<open>
  The framework answers an \<^verbatim>\<open>HTTPException\<close> with its own status code; any other
  exception that leaves a handler is answered with 500 (Internal Server Error).
\<close>

fun status_code :: "exn \<Rightarrow> nat" where
  "status_code (HTTPException status detail) = status"
| "status_code PydanticValidationError = 500"
| "status_code ValueError = 500"
| "status_code TypeError = 500"

text \<open>Truthiness of an optional string, as in \<^verbatim>\<open>if role:\<close>: \<^verbatim>\<open>None\<close> and \<^verbatim>\<open>""\<close> are false.\<close>

fun truthy :: "string option \<Rightarrow> bool" where
  "truthy None = False"
| "truthy (Some s) = (s \<noteq> [])"

section \<open>Schema construction\<close>

text \<open>
  \<^verbatim>\<open>UserSchema(**payload.model_dump())\<close>. The only field whose type is narrower in the
  schema than in the request model is \<^verbatim>\<open>role\<close>
  (\<^verbatim>\<open>Literal["admin", "manager", "member"]\<close> against \<^verbatim>\<open>str\<close>); \<^verbatim>\<open>is_active\<close> is not
  in the payload and takes its default \<^verbatim>\<open>True\<close>.
\<close>

definition UserSchema :: "CreateUser \<Rightarrow> exn + User" where
  "UserSchema payload =
     (if CreateUser.role payload \<in> {''admin'', ''manager'', ''member''}
      then Inr \<lparr>User.name = CreateUser.name payload,
                User.email = CreateUser.email payload,
                User.alias' = CreateUser.alias' payload,
                User.role = CreateUser.role payload,
                User.manager_id = CreateUser.manager_id payload,
                User.geo = CreateUser.geo payload,
                User.timezone = CreateUser.timezone payload,
                User.is_active = True\<rparr>
      else Inl PydanticValidationError)"

text \<open>
  \<^verbatim>\<open>TasktypeSchema(**payload.model_dump())\<close> and \<^verbatim>\<open>RosterSchema(**payload.model_dump())\<close>:
  every field has the same type in the request model and in the schema, so the
  constructors copy the fields and cannot fail.
\<close>

definition TasktypeSchema :: "CreateTasktype \<Rightarrow> Tasktype" where
  "TasktypeSchema payload =
     \<lparr>Tasktype.name = CreateTasktype.name payload,
      Tasktype.code = CreateTasktype.code payload,
      Tasktype.description = CreateTasktype.description payload,
      Tasktype.active = CreateTasktype.active payload\<rparr>"

definition RosterSchema :: "CreateRoster \<Rightarrow> Roster" where
  "RosterSchema payload =
     \<lparr>Roster.user_id = CreateRoster.user_id payload,
      Roster.tasktype_id = CreateRoster.tasktype_id payload,
      Roster.start_time = CreateRoster.start_time payload,
      Roster.end_time = CreateRoster.end_time payload,
      Roster.timezone = CreateRoster.timezone payload,
      Roster.notes' = CreateRoster.notes' payload\<rparr>"

section \<open>Documents and filters of the document store\<close>

text \<open>
  A stored document is the \<^verbatim>\<open>model_dump()\<close> of a schema instance: a dictionary from
  field names to strings, booleans or null. A filter is the dictionary the handlers
  build: every key is a condition and all of them must hold; the key \<^verbatim>\<open>$or\<close> holds a
  list of filters of which one must hold.
\<close>

datatype val = Null | Bool bool | Str string

type_synonym document = "(string \<times> val) list"

fun opt :: "string option \<Rightarrow> val" where
  "opt None = Null"
| "opt (Some s) = Str s"

definition User_dump :: "User \<Rightarrow> document" where
  "User_dump u =
     [(''name'', Str (User.name u)), (''email'', Str (User.email u)),
      (''alias'', opt (User.alias' u)), (''role'', Str (User.role u)),
      (''manager_id'', opt (User.manager_id u)), (''geo'', opt (User.geo u)),
      (''timezone'', opt (User.timezone u)), (''is_active'', Bool (User.is_active u))]"

definition Tasktype_dump :: "Tasktype \<Rightarrow> document" where
  "Tasktype_dump t =
     [(''name'', Str (Tasktype.name t)), (''code'', opt (Tasktype.code t)),
      (''description'', opt (Tasktype.description t)),
      (''active'', Bool (Tasktype.active t))]"

definition Roster_dump :: "Roster \<Rightarrow> document" where
  "Roster_dump r =
     [(''user_id'', Str (Roster.user_id r)), (''tasktype_id'', Str (Roster.tasktype_id r)),
      (''start_time'', Str (Roster.start_time r)), (''end_time'', Str (Roster.end_time r)),
      (''timezone'', opt (Roster.timezone r)), (''notes'', opt (Roster.notes' r))]"

datatype cond = Eq val | Lt val | Lte val | Gt val | Gte val

datatype clause = Field string cond | Or "clause list list"

type_synonym filt = "clause list"

text \<open>
  The store compares a field only with a value of its own type; strings are compared
  byte by byte, a proper prefix being smaller (the order of \<open>string\<close> here). Equality
  with null also holds for a missing field.
\<close>

fun val_less :: "val \<Rightarrow> val \<Rightarrow> bool" where
  "val_less (Str a) (Str b) = (a < b)"
| "val_less (Bool a) (Bool b) = (a < b)"
| "val_less _ _ = False"

fun same_type :: "val \<Rightarrow> val \<Rightarrow> bool" where
  "same_type (Str a) (Str b) = True"
| "same_type (Bool a) (Bool b) = True"
| "same_type Null Null = True"
| "same_type _ _ = False"

fun holds :: "cond \<Rightarrow> val option \<Rightarrow> bool" where
  "holds (Eq Null) None = True"
| "holds (Eq w) None = False"
| "holds (Eq w) (Some v) = (v = w)"
| "holds (Lt w) (Some v) = val_less v w"
| "holds (Gt w) (Some v) = val_less w v"
| "holds (Lte w) (Some v) = (same_type v w \<and> \<not> val_less w v)"
| "holds (Gte w) (Some v) = (same_type v w \<and> \<not> val_less v w)"
| "holds (Lte Null) None = True"
| "holds (Gte Null) None = True"
| "holds _ None = False"

fun matches :: "document \<Rightarrow> clause \<Rightarrow> bool" where
  "matches d (Field k c) = holds c (map_of d k)"
| "matches d (Or fs) = list_ex (\<lambda>f. list_all (matches d) f) fs"

definition matches_filt :: "document \<Rightarrow> filt \<Rightarrow> bool" where
  "matches_filt d f = list_all (matches d) f"

section \<open>The store and its helpers\<close>

text \<open>
  The database: one collection per schema, in insertion order, each document under
  its generated \<^verbatim>\<open>_id\<close>. The identifier is opaque; \<open>next_id\<close> is the store's supply of
  fresh identifiers.
\<close>

type_synonym doc_id = nat

record store =
  user :: "(doc_id \<times> User) list"
  tasktype :: "(doc_id \<times> Tasktype) list"
  roster :: "(doc_id \<times> Roster) list"
  next_id :: doc_id

text \<open>
  \<^verbatim>\<open>db.<collection>.find_one(filt)\<close>: the first stored document that matches, or
  \<^verbatim>\<open>None\<close>. The first argument is the \<^verbatim>\<open>model_dump\<close> of the collection's schema.
\<close>

definition find_one :: "('a \<Rightarrow> document) \<Rightarrow> (doc_id \<times> 'a) list \<Rightarrow> filt \<Rightarrow> (doc_id \<times> 'a) option" where
  "find_one dump coll f = find (\<lambda>(i, d). matches_filt (dump d) f) coll"

text \<open>
  Modelled from the spec: \<^verbatim>\<open>get_documents\<close> of \<^verbatim>\<open>database.py\<close>, which is not among the
  sources. The spec's generic read-filter operation: the store returns all matching
  documents, in store order.
\<close>

definition get_documents :: "('a \<Rightarrow> document) \<Rightarrow> (doc_id \<times> 'a) list \<Rightarrow> filt \<Rightarrow> (doc_id \<times> 'a) list" where
  "get_documents dump coll f = filter (\<lambda>(i, d). matches_filt (dump d) f) coll"

text \<open>
  Modelled from the spec: \<^verbatim>\<open>create_document\<close> of \<^verbatim>\<open>database.py\<close>, which is not among
  the sources. The spec's record creation: persist the instance in the named
  collection (a single write) and return its generated identifier, which is unique.
  One definition per collection name.
\<close>

definition create_document_user :: "store \<Rightarrow> User \<Rightarrow> doc_id \<times> store" where
  "create_document_user db data =
     (next_id db, db\<lparr>user := user db @ [(next_id db, data)], next_id := Suc (next_id db)\<rparr>)"

definition create_document_tasktype :: "store \<Rightarrow> Tasktype \<Rightarrow> doc_id \<times> store" where
  "create_document_tasktype db data =
     (next_id db, db\<lparr>tasktype := tasktype db @ [(next_id db, data)], next_id := Suc (next_id db)\<rparr>)"

definition create_document_roster :: "store \<Rightarrow> Roster \<Rightarrow> doc_id \<times> store" where
  "create_document_roster db data =
     (next_id db, db\<lparr>roster := roster db @ [(next_id db, data)], next_id := Suc (next_id db)\<rparr>)"

section \<open>Datetimes\<close>

text \<open>
  A parsed \<^verbatim>\<open>datetime\<close>, as far as the handlers use it: they only compare two of
  them. An offset-naive datetime is a point on the wall-clock line, an offset-aware one
  an instant; both are counted in microseconds from \<^verbatim>\<open>0001-01-01T00:00:00\<close>.
  \<open>dt_le a b\<close> is Python's \<^verbatim>\<open>a <= b\<close>, which raises \<^verbatim>\<open>TypeError\<close> when one
  side is naive and the other aware.
\<close>

datatype pydatetime = Naive int | Aware int

fun dt_le :: "pydatetime \<Rightarrow> pydatetime \<Rightarrow> exn + bool" where
  "dt_le (Naive a) (Naive b) = Inr (a \<le> b)"
| "dt_le (Aware a) (Aware b) = Inr (a \<le> b)"
| "dt_le (Naive a) (Aware b) = Inl TypeError"
| "dt_le (Aware a) (Naive b) = Inl TypeError"

text \<open>
  \<^verbatim>\<open>datetime.fromisoformat\<close> belongs to the Python library and the set of texts it
  accepts depends on the Python version, so the handler below takes the parser as its
  first argument (\<open>None\<close> is the \<^verbatim>\<open>ValueError\<close> of an unparsable text). To run the
  handler on concrete requests, \<open>fromisoformat_seconds\<close> is the parser on the texts
  \<^verbatim>\<open>YYYY-MM-DDTHH:MM:SS\<close>, which every version reads as the naive datetime they
  spell; it rejects every other text, and is applied below only to texts of that shape
  and to texts no version accepts. The day count follows the library's
  \<^verbatim>\<open>_ymd2ord\<close>.
\<close>

definition digit_val :: "char \<Rightarrow> int option" where
  "digit_val c = (if CHR ''0'' \<le> c \<and> c \<le> CHR ''9'' then Some (of_char c - 48) else None)"

fun number_from :: "int \<Rightarrow> string \<Rightarrow> int option" where
  "number_from acc [] = Some acc"
| "number_from acc (c # cs) =
     (case digit_val c of None \<Rightarrow> None | Some v \<Rightarrow> number_from (10 * acc + v) cs)"

definition is_leap :: "int \<Rightarrow> bool" where
  "is_leap y = (y mod 4 = 0 \<and> (y mod 100 \<noteq> 0 \<or> y mod 400 = 0))"

definition days_in_month :: "int \<Rightarrow> int \<Rightarrow> int" where
  "days_in_month y m =
     (if m = 2 \<and> is_leap y then 29
      else [31, 28, 31, 30, 31, 30, 31, 31, 30, 31, 30, 31] ! nat (m - 1))"

definition days_before_year :: "int \<Rightarrow> int" where
  "days_before_year y = (y - 1) * 365 + (y - 1) div 4 - (y - 1) div 100 + (y - 1) div 400"

definition days_before_month :: "int \<Rightarrow> int \<Rightarrow> int" where
  "days_before_month y m =
     [0, 31, 59, 90, 120, 151, 181, 212, 243, 273, 304, 334] ! nat (m - 1)
       + (if m > 2 \<and> is_leap y then 1 else 0)"

definition ymd2ord :: "int \<Rightarrow> int \<Rightarrow> int \<Rightarrow> int" where
  "ymd2ord y m d = days_before_year y + days_before_month y m + d"

definition fromisoformat_seconds :: "string \<Rightarrow> pydatetime option" where
  "fromisoformat_seconds s =
     (if length s = 19 \<and> s ! 4 = CHR ''-'' \<and> s ! 7 = CHR ''-'' \<and> s ! 10 = CHR ''T''
          \<and> s ! 13 = CHR '':'' \<and> s ! 16 = CHR '':''
      then
        (case (number_from 0 (take 4 s), number_from 0 (take 2 (drop 5 s)),
               number_from 0 (take 2 (drop 8 s)), number_from 0 (take 2 (drop 11 s)),
               number_from 0 (take 2 (drop 14 s)), number_from 0 (take 2 (drop 17 s))) of
           (Some y, Some m, Some d, Some hh, Some mm, Some ss) \<Rightarrow>
             (if 1 \<le> y \<and> 1 \<le> m \<and> m \<le> 12 \<and> 1 \<le> d \<and> d \<le> days_in_month y m
                 \<and> hh < 24 \<and> mm < 60 \<and> ss < 60
              then Some (Naive (((((ymd2ord y m d - 1) * 24 + hh) * 60 + mm) * 60 + ss)
                                  * 1000000))
              else None)
         | _ \<Rightarrow> None)
      else None)"

section \<open>The identifier helper\<close>

text \<open>
  \<^verbatim>\<open>ObjectId(id_str)\<close> of the store's driver, on a \<^verbatim>\<open>str\<close>: the text must have 24
  characters and \<^verbatim>\<open>bytes.fromhex\<close> must read it; \<^verbatim>\<open>fromhex\<close> skips ASCII
  whitespace in front of a byte and then wants two hexadecimal digits. \<open>None\<close> is the
  driver's \<^verbatim>\<open>InvalidId\<close>.
\<close>

definition isspace :: "char \<Rightarrow> bool" where
  "isspace c = (c \<in> {CHR '' '', CHR 0x09, CHR 0x0A, CHR 0x0B, CHR 0x0C, CHR 0x0D})"

definition hex_val :: "char \<Rightarrow> nat option" where
  "hex_val c =
     (if CHR ''0'' \<le> c \<and> c \<le> CHR ''9'' then Some (of_char c - 48)
      else if CHR ''a'' \<le> c \<and> c \<le> CHR ''f'' then Some (of_char c - 87)
      else if CHR ''A'' \<le> c \<and> c \<le> CHR ''F'' then Some (of_char c - 55)
      else None)"

fun fromhex :: "string \<Rightarrow> nat list option" where
  "fromhex [] = Some []"
| "fromhex [c] = (if isspace c then Some [] else None)"
| "fromhex (c # d # cs) =
     (if isspace c then fromhex (d # cs)
      else (case (hex_val c, hex_val d) of
              (Some a, Some b) \<Rightarrow> map_option ((#) (16 * a + b)) (fromhex cs)
            | _ \<Rightarrow> None))"

definition ObjectId :: "string \<Rightarrow> nat list option" where
  "ObjectId id_str = (if length id_str = 24 then fromhex id_str else None)"

text \<open>\<^verbatim>\<open>oid\<close>: any exception of the constructor becomes an \<^verbatim>\<open>HTTPException\<close>.\<close>

definition oid :: "string \<Rightarrow> exn + nat list" where
  "oid id_str =
     (case ObjectId id_str of
        Some v \<Rightarrow> Inr v
      | None \<Rightarrow> Inl (HTTPException 400 ''Invalid id format''))"

section \<open>The handlers\<close>

text \<open>
  Every handler takes the store and returns its result together with the store it
  leaves behind: \<open>Inr\<close> the response body, \<open>Inl\<close> the exception that left the handler.
  A creation answers with the new identifier, a listing with the matching documents,
  each with its identifier.
\<close>

definition create_user :: "store \<Rightarrow> CreateUser \<Rightarrow> (exn + doc_id) \<times> store" where
  "create_user db payload =
     (case UserSchema payload of
        Inl e \<Rightarrow> (Inl e, db)
      | Inr data \<Rightarrow>
          (case find_one User_dump (user db) [Field ''email'' (Eq (Str (User.email data)))] of
             Some existing \<Rightarrow> (Inl (HTTPException 400 ''Email already exists''), db)
           | None \<Rightarrow>
               (let (inserted_id, db') = create_document_user db data
                in (Inr inserted_id, db'))))"

definition list_users :: "store \<Rightarrow> string option \<Rightarrow> string option \<Rightarrow> exn + (doc_id \<times> User) list" where
  "list_users db role' manager_id' =
     (let filt = [];
          filt = (if truthy role' then filt @ [Field ''role'' (Eq (opt role'))] else filt);
          filt = (if truthy manager_id'
                  then filt @ [Field ''manager_id'' (Eq (opt manager_id'))] else filt);
          users = get_documents User_dump (user db) filt
      in Inr users)"

definition create_tasktype :: "store \<Rightarrow> CreateTasktype \<Rightarrow> (exn + doc_id) \<times> store" where
  "create_tasktype db payload =
     (let data = TasktypeSchema payload;
          ors = [[Field ''name'' (Eq (Str (Tasktype.name data)))]];
          ors = (if truthy (Tasktype.code data)
                 then ors @ [[Field ''code'' (Eq (opt (Tasktype.code data)))]] else ors)
      in (case find_one Tasktype_dump (tasktype db) [Or ors] of
            Some existing \<Rightarrow>
              (Inl (HTTPException 400 ''Task type with same name/code exists''), db)
          | None \<Rightarrow>
              (let (inserted_id, db') = create_document_tasktype db data
               in (Inr inserted_id, db'))))"

definition list_tasktypes :: "store \<Rightarrow> bool option \<Rightarrow> exn + (doc_id \<times> Tasktype) list" where
  "list_tasktypes db active' =
     (let filt = (case active' of None \<Rightarrow> [] | Some a \<Rightarrow> [Field ''active'' (Eq (Bool a))]);
          docs = get_documents Tasktype_dump (tasktype db) filt
      in Inr docs)"

definition create_roster ::
  "(string \<Rightarrow> pydatetime option) \<Rightarrow> store \<Rightarrow> CreateRoster \<Rightarrow> (exn + doc_id) \<times> store" where
  "create_roster fromisoformat db payload =
     (case fromisoformat (CreateRoster.start_time payload) of
        None \<Rightarrow> (Inl ValueError, db)
      | Some start \<Rightarrow>
     (case fromisoformat (CreateRoster.end_time payload) of
        None \<Rightarrow> (Inl ValueError, db)
      | Some finish \<Rightarrow>
     (case dt_le finish start of
        Inl e \<Rightarrow> (Inl e, db)
      | Inr True \<Rightarrow> (Inl (HTTPException 400 ''End time must be after start time''), db)
      | Inr False \<Rightarrow>
     (case find_one Roster_dump (roster db)
             [Field ''user_id'' (Eq (Str (CreateRoster.user_id payload))),
              Or [[Field ''start_time'' (Lt (Str (CreateRoster.end_time payload))),
                   Field ''end_time'' (Gt (Str (CreateRoster.start_time payload)))]]] of
        Some overlap \<Rightarrow> (Inl (HTTPException 400 ''Overlapping roster for this user''), db)
      | None \<Rightarrow>
          (let data = RosterSchema payload;
               (inserted_id, db') = create_document_roster db data
           in (Inr inserted_id, db'))))))"

definition list_rosters :: "store \<Rightarrow> string option \<Rightarrow> string option \<Rightarrow> exn + (doc_id \<times> Roster) list" where
  "list_rosters db user_id' date =
     (let filt = [];
          filt = (if truthy user_id' then filt @ [Field ''user_id'' (Eq (opt user_id'))]
                  else filt);
          filt = (if truthy date
                  then (let day_start = the date @ ''T00:00:00'';
                            day_end = the date @ ''T23:59:59''
                        in filt @ [Or [[Field ''start_time'' (Lte (Str day_end)),
                                        Field ''end_time'' (Gte (Str day_start))]]])
                  else filt);
          docs = get_documents Roster_dump (roster db) filt
      in Inr docs)"

section \<open>The conditions of the specification\<close>

text \<open>
  The overlap test in the words of the specification: a stored roster of the same
  user with \<^verbatim>\<open>existing.start_time < candidate.end_time\<close> and
  \<^verbatim>\<open>existing.end_time > candidate.start_time\<close>, the texts compared as strings.
\<close>

definition overlaps :: "CreateRoster \<Rightarrow> Roster \<Rightarrow> bool" where
  "overlaps candidate existing =
     (Roster.user_id existing = CreateRoster.user_id candidate
      \<and> Roster.start_time existing < CreateRoster.end_time candidate
      \<and> Roster.end_time existing > CreateRoster.start_time candidate)"

text \<open>
  Steps 1 and 2 of the specification's roster validation: both texts parse, and the
  parsed end is strictly after the parsed start.
\<close>

definition strictly_after :: "(string \<Rightarrow> pydatetime option) \<Rightarrow> CreateRoster \<Rightarrow> bool" where
  "strictly_after fromisoformat candidate =
     (case fromisoformat (CreateRoster.start_time candidate) of
        None \<Rightarrow> False
      | Some start \<Rightarrow>
          (case fromisoformat (CreateRoster.end_time candidate) of
             None \<Rightarrow> False
           | Some finish \<Rightarrow> dt_le finish start = Inr False))"

text \<open>The day window of a listing, in the words of the specification.\<close>

definition in_day :: "string \<Rightarrow> Roster \<Rightarrow> bool" where
  "in_day d r =
     (Roster.start_time r \<le> d @ ''T23:59:59'' \<and> Roster.end_time r \<ge> d @ ''T00:00:00'')"

text \<open>Requests served one after the other, each on the store the last one left.\<close>

fun create_users :: "store \<Rightarrow> CreateUser list \<Rightarrow> (exn + doc_id) list \<times> store" where
  "create_users db [] = ([], db)"
| "create_users db (p # ps) =
     (let (r, db') = create_user db p;
          (rs, db'') = create_users db' ps
      in (r # rs, db''))"

section \<open>Example store and requests\<close>

definition alice :: User where
  "alice = \<lparr>User.name = ''Alice'', User.email = ''alice@example.com'', User.alias' = None,
            User.role = ''member'', User.manager_id = Some ''boss'', User.geo = None,
            User.timezone = None, User.is_active = True\<rparr>"

definition dev :: Tasktype where
  "dev = \<lparr>Tasktype.name = ''Development'', Tasktype.code = Some ''DEV'',
          Tasktype.description = None, Tasktype.active = True\<rparr>"

definition qa :: Tasktype where
  "qa = \<lparr>Tasktype.name = ''Testing'', Tasktype.code = None,
         Tasktype.description = None, Tasktype.active = False\<rparr>"

definition shift :: Roster where
  "shift = \<lparr>Roster.user_id = ''u1'', Roster.tasktype_id = ''t1'',
            Roster.start_time = ''2024-01-15T10:00:00'',
            Roster.end_time = ''2024-01-15T11:00:00'',
            Roster.timezone = None, Roster.notes' = None\<rparr>"

definition next_day :: Roster where
  "next_day = \<lparr>Roster.user_id = ''u2'', Roster.tasktype_id = ''t1'',
               Roster.start_time = ''2024-01-16T09:00:00'',
               Roster.end_time = ''2024-01-16T17:00:00'',
               Roster.timezone = None, Roster.notes' = None\<rparr>"

definition example_store :: store where
  "example_store =
     \<lparr>user = [(0, alice)], tasktype = [(1, dev), (2, qa)],
      roster = [(3, shift), (4, next_day)], next_id = 5\<rparr>"

definition new_user :: "string \<Rightarrow> string \<Rightarrow> CreateUser" where
  "new_user e r =
     \<lparr>CreateUser.name = ''Bob'', CreateUser.email = e, CreateUser.alias' = None,
      CreateUser.role = r, CreateUser.manager_id = None, CreateUser.geo = None,
      CreateUser.timezone = None\<rparr>"

definition new_tasktype :: "string \<Rightarrow> string option \<Rightarrow> CreateTasktype" where
  "new_tasktype n c =
     \<lparr>CreateTasktype.name = n, CreateTasktype.code = c,
      CreateTasktype.description = None, CreateTasktype.active = True\<rparr>"

definition new_roster :: "string \<Rightarrow> string \<Rightarrow> CreateRoster" where
  "new_roster s e =
     \<lparr>CreateRoster.user_id = ''u1'', CreateRoster.tasktype_id = ''t1'',
      CreateRoster.start_time = s, CreateRoster.end_time = e,
      CreateRoster.timezone = None, CreateRoster.notes' = None\<rparr>"

section \<open>What the filters of the handlers select\<close>

lemma opt_eq_Str: "opt x = Str s \<longleftrightarrow> x = Some s"
  by (cases x) auto

lemma truthy_opt: "truthy x \<Longrightarrow> opt x = Str (the x)"
  by (cases x) auto

lemma email_filt:
  "matches_filt (User_dump u) [Field ''email'' (Eq (Str e))] \<longleftrightarrow> User.email u = e"
  by (simp add: matches_filt_def User_dump_def)

lemma role_filt:
  "matches_filt (User_dump u) [Field ''role'' (Eq (Str r))] \<longleftrightarrow> User.role u = r"
  by (simp add: matches_filt_def User_dump_def)

lemma manager_filt:
  "matches_filt (User_dump u) [Field ''manager_id'' (Eq (Str m))] \<longleftrightarrow> User.manager_id u = Some m"
  by (simp add: matches_filt_def User_dump_def opt_eq_Str)

lemma role_manager_filt:
  "matches_filt (User_dump u) [Field ''role'' (Eq (Str r)), Field ''manager_id'' (Eq (Str m))]
     \<longleftrightarrow> User.role u = r \<and> User.manager_id u = Some m"
  by (simp add: matches_filt_def User_dump_def opt_eq_Str)

lemma empty_filt: "matches_filt d []"
  by (simp add: matches_filt_def)

lemma name_filt:
  "matches_filt (Tasktype_dump t) [Or [[Field ''name'' (Eq (Str n))]]] \<longleftrightarrow> Tasktype.name t = n"
  by (simp add: matches_filt_def Tasktype_dump_def)

lemma name_code_filt:
  "matches_filt (Tasktype_dump t)
     [Or [[Field ''name'' (Eq (Str n))], [Field ''code'' (Eq (Str c))]]]
     \<longleftrightarrow> Tasktype.name t = n \<or> Tasktype.code t = Some c"
  by (simp add: matches_filt_def Tasktype_dump_def opt_eq_Str)

lemma active_filt:
  "matches_filt (Tasktype_dump t) [Field ''active'' (Eq (Bool a))] \<longleftrightarrow> Tasktype.active t = a"
  by (simp add: matches_filt_def Tasktype_dump_def)

lemma overlap_filt:
  "matches_filt (Roster_dump r)
     [Field ''user_id'' (Eq (Str (CreateRoster.user_id p))),
      Or [[Field ''start_time'' (Lt (Str (CreateRoster.end_time p))),
           Field ''end_time'' (Gt (Str (CreateRoster.start_time p)))]]]
     \<longleftrightarrow> overlaps p r"
  by (simp add: matches_filt_def Roster_dump_def overlaps_def)

lemma user_id_filt:
  "matches_filt (Roster_dump r) [Field ''user_id'' (Eq (Str u))] \<longleftrightarrow> Roster.user_id r = u"
  by (simp add: matches_filt_def Roster_dump_def)

lemma day_filt:
  "matches_filt (Roster_dump r)
     [Or [[Field ''start_time'' (Lte (Str (d @ ''T23:59:59''))),
           Field ''end_time'' (Gte (Str (d @ ''T00:00:00'')))]]]
     \<longleftrightarrow> in_day d r"
  by (auto simp: matches_filt_def Roster_dump_def in_day_def)

lemma user_day_filt:
  "matches_filt (Roster_dump r)
     [Field ''user_id'' (Eq (Str u)),
      Or [[Field ''start_time'' (Lte (Str (d @ ''T23:59:59''))),
           Field ''end_time'' (Gte (Str (d @ ''T00:00:00'')))]]]
     \<longleftrightarrow> Roster.user_id r = u \<and> in_day d r"
  by (auto simp: matches_filt_def Roster_dump_def in_day_def)

lemma find_one_None:
  "find_one dump coll f = None \<longleftrightarrow> (\<forall>(i, d) \<in> set coll. \<not> matches_filt (dump d) f)"
  by (auto simp: find_one_def find_None_iff)

lemma find_one_cases:
  "(\<exists>(i, d) \<in> set coll. matches_filt (dump d) f) \<Longrightarrow> \<exists>x. find_one dump coll f = Some x"
  using find_one_None [of dump coll f] by (cases "find_one dump coll f") auto

section \<open>The creation handlers, case by case\<close>

lemma create_user_bad_role:
  "CreateUser.role p \<notin> {''admin'', ''manager'', ''member''} \<Longrightarrow>
   create_user db p = (Inl PydanticValidationError, db)"
  by (simp add: create_user_def UserSchema_def)

lemma create_user_duplicate:
  assumes "CreateUser.role p \<in> {''admin'', ''manager'', ''member''}"
    and "\<exists>(i, u) \<in> set (user db). User.email u = CreateUser.email p"
  shows "create_user db p = (Inl (HTTPException 400 ''Email already exists''), db)"
proof -
  from assms(2) have "\<exists>(i, u) \<in> set (user db).
      matches_filt (User_dump u) [Field ''email'' (Eq (Str (CreateUser.email p)))]"
    by (simp add: email_filt)
  then obtain x where "find_one User_dump (user db)
      [Field ''email'' (Eq (Str (CreateUser.email p)))] = Some x"
    using find_one_cases by blast
  with assms(1) show ?thesis
    by (simp add: create_user_def UserSchema_def)
qed

lemma create_user_fresh:
  assumes "CreateUser.role p \<in> {''admin'', ''manager'', ''member''}"
    and "\<not> (\<exists>(i, u) \<in> set (user db). User.email u = CreateUser.email p)"
  shows "\<exists>data. UserSchema p = Inr data \<and> User.email data = CreateUser.email p \<and>
     create_user db p =
       (Inr (next_id db),
        db\<lparr>user := user db @ [(next_id db, data)], next_id := Suc (next_id db)\<rparr>)"
proof -
  from assms(2) have "find_one User_dump (user db)
      [Field ''email'' (Eq (Str (CreateUser.email p)))] = None"
    by (auto simp: find_one_None email_filt)
  with assms(1) show ?thesis
    by (simp add: create_user_def UserSchema_def create_document_user_def)
qed

lemma create_tasktype_filter:
  "matches_filt (Tasktype_dump t)
     [Or (if truthy (CreateTasktype.code p)
          then [[Field ''name'' (Eq (Str (CreateTasktype.name p)))]]
                 @ [[Field ''code'' (Eq (opt (CreateTasktype.code p)))]]
          else [[Field ''name'' (Eq (Str (CreateTasktype.name p)))]])]
   \<longleftrightarrow> Tasktype.name t = CreateTasktype.name p
        \<or> (truthy (CreateTasktype.code p) \<and> Tasktype.code t = CreateTasktype.code p)"
  by (cases "CreateTasktype.code p") (auto simp: name_filt name_code_filt)

lemma create_tasktype_eq:
  "create_tasktype db p =
     (if \<exists>(i, t) \<in> set (tasktype db).
           Tasktype.name t = CreateTasktype.name p
           \<or> (truthy (CreateTasktype.code p) \<and> Tasktype.code t = CreateTasktype.code p)
      then (Inl (HTTPException 400 ''Task type with same name/code exists''), db)
      else (Inr (next_id db),
            db\<lparr>tasktype := tasktype db @ [(next_id db, TasktypeSchema p)],
               next_id := Suc (next_id db)\<rparr>))"
proof -
  let ?f = "[Or (if truthy (CreateTasktype.code p)
          then [[Field ''name'' (Eq (Str (CreateTasktype.name p)))]]
                 @ [[Field ''code'' (Eq (opt (CreateTasktype.code p)))]]
          else [[Field ''name'' (Eq (Str (CreateTasktype.name p)))]])]"
  have unfold: "create_tasktype db p =
     (case find_one Tasktype_dump (tasktype db) ?f of
        Some existing \<Rightarrow> (Inl (HTTPException 400 ''Task type with same name/code exists''), db)
      | None \<Rightarrow> (Inr (next_id db),
            db\<lparr>tasktype := tasktype db @ [(next_id db, TasktypeSchema p)],
               next_id := Suc (next_id db)\<rparr>))"
    by (auto simp: create_tasktype_def Let_def TasktypeSchema_def create_document_tasktype_def
        split: option.split)
  show ?thesis
  proof (cases "find_one Tasktype_dump (tasktype db) ?f")
    case None
    then have "\<not> (\<exists>(i, t) \<in> set (tasktype db).
           Tasktype.name t = CreateTasktype.name p
           \<or> (truthy (CreateTasktype.code p) \<and> Tasktype.code t = CreateTasktype.code p))"
      unfolding find_one_None create_tasktype_filter by blast
    with None unfold show ?thesis by simp
  next
    case (Some x)
    then have "\<not> (\<forall>(i, d) \<in> set (tasktype db). \<not> matches_filt (Tasktype_dump d) ?f)"
      using find_one_None [of Tasktype_dump "tasktype db" ?f] by simp
    then have "\<exists>(i, t) \<in> set (tasktype db).
           Tasktype.name t = CreateTasktype.name p
           \<or> (truthy (CreateTasktype.code p) \<and> Tasktype.code t = CreateTasktype.code p)"
      unfolding create_tasktype_filter by blast
    with Some unfold show ?thesis by simp
  qed
qed

lemma dt_le_Inl: "dt_le a b = Inl e \<Longrightarrow> e = TypeError"
  by (cases a; cases b) auto

lemma create_roster_checked:
  assumes "strictly_after f p"
  shows "create_roster f db p =
     (if \<exists>(i, r) \<in> set (roster db). overlaps p r
      then (Inl (HTTPException 400 ''Overlapping roster for this user''), db)
      else (Inr (next_id db),
            db\<lparr>roster := roster db @ [(next_id db, RosterSchema p)],
               next_id := Suc (next_id db)\<rparr>))"
proof -
  let ?f = "[Field ''user_id'' (Eq (Str (CreateRoster.user_id p))),
             Or [[Field ''start_time'' (Lt (Str (CreateRoster.end_time p))),
                  Field ''end_time'' (Gt (Str (CreateRoster.start_time p)))]]]"
  from assms obtain s e where parsed:
    "f (CreateRoster.start_time p) = Some s" "f (CreateRoster.end_time p) = Some e"
    "dt_le e s = Inr False"
    by (auto simp: strictly_after_def split: option.splits)
  then have unfold: "create_roster f db p =
     (case find_one Roster_dump (roster db) ?f of
        Some overlap \<Rightarrow> (Inl (HTTPException 400 ''Overlapping roster for this user''), db)
      | None \<Rightarrow> (Inr (next_id db),
            db\<lparr>roster := roster db @ [(next_id db, RosterSchema p)],
               next_id := Suc (next_id db)\<rparr>))"
    by (simp add: create_roster_def create_document_roster_def Let_def split: option.split)
  show ?thesis
  proof (cases "find_one Roster_dump (roster db) ?f")
    case None
    then have "\<not> (\<exists>(i, r) \<in> set (roster db). overlaps p r)"
      unfolding find_one_None overlap_filt by blast
    with None unfold show ?thesis by simp
  next
    case (Some x)
    then have "\<not> (\<forall>(i, d) \<in> set (roster db). \<not> matches_filt (Roster_dump d) ?f)"
      using find_one_None [of Roster_dump "roster db" ?f] by simp
    then have "\<exists>(i, r) \<in> set (roster db). overlaps p r"
      unfolding overlap_filt by blast
    with Some unfold show ?thesis by simp
  qed
qed

lemma create_roster_unchecked:
  assumes "\<not> strictly_after f p"
  shows "\<exists>e. create_roster f db p = (Inl e, db)
            \<and> e \<in> {ValueError, TypeError, HTTPException 400 ''End time must be after start time''}"
proof (cases "f (CreateRoster.start_time p)")
  case None
  then show ?thesis by (simp add: create_roster_def)
next
  case (Some s)
  note start = this
  show ?thesis
  proof (cases "f (CreateRoster.end_time p)")
    case None
    with start show ?thesis by (simp add: create_roster_def)
  next
    case (Some e)
    with start assms have "dt_le e s \<noteq> Inr False"
      by (simp add: strictly_after_def)
    with start Some show ?thesis
      by (cases "dt_le e s") (auto simp: create_roster_def dest: dt_le_Inl)
  qed
qed

lemma create_roster_unparsable:
  "f (CreateRoster.start_time p) = None \<or> f (CreateRoster.end_time p) = None \<Longrightarrow>
   create_roster f db p = (Inl ValueError, db)"
  by (auto simp: create_roster_def split: option.split)

section \<open>The listing handlers\<close>

lemma get_documents_cong:
  "(\<And>i d. (i, d) \<in> set coll \<Longrightarrow> matches_filt (dump d) f = P (i, d)) \<Longrightarrow>
   get_documents dump coll f = filter P coll"
  unfolding get_documents_def by (rule filter_cong) auto

lemma list_users_eq:
  "list_users db r m =
     Inr (filter (\<lambda>(i, u). (truthy r \<longrightarrow> Some (User.role u) = r)
                          \<and> (truthy m \<longrightarrow> User.manager_id u = m)) (user db))"
  unfolding list_users_def Let_def
  by (rule arg_cong [where f = Inr], rule get_documents_cong, cases r; cases m)
     (auto simp: role_filt manager_filt role_manager_filt empty_filt)

lemma list_tasktypes_eq:
  "list_tasktypes db a =
     Inr (filter (\<lambda>(i, t). case a of None \<Rightarrow> True | Some b \<Rightarrow> Tasktype.active t = b)
            (tasktype db))"
  unfolding list_tasktypes_def Let_def
  by (rule arg_cong [where f = Inr], rule get_documents_cong, cases a)
     (auto simp: active_filt empty_filt)

lemma list_rosters_eq:
  "list_rosters db u d =
     Inr (filter (\<lambda>(i, r). (truthy u \<longrightarrow> Some (Roster.user_id r) = u)
                          \<and> (truthy d \<longrightarrow> in_day (the d) r)) (roster db))"
  unfolding list_rosters_def Let_def
  by (rule arg_cong [where f = Inr], rule get_documents_cong, cases u; cases d)
     (auto simp: user_id_filt day_filt user_day_filt empty_filt)

section \<open>Users created one after the other\<close>

lemma create_users_fresh:
  assumes "\<forall>p \<in> set ps. CreateUser.role p \<in> {''admin'', ''manager'', ''member''}"
    and "distinct (map CreateUser.email ps)"
    and "\<forall>p \<in> set ps. \<forall>(i, u) \<in> set (user db). User.email u \<noteq> CreateUser.email p"
  shows "fst (create_users db ps) = map Inr [next_id db ..< next_id db + length ps]"
  using assms
proof (induction ps arbitrary: db)
  case Nil
  then show ?case by simp
next
  case (Cons p ps)
  from Cons.prems have role: "CreateUser.role p \<in> {''admin'', ''manager'', ''member''}"
    and fresh: "\<not> (\<exists>(i, u) \<in> set (user db). User.email u = CreateUser.email p)"
    by auto
  from create_user_fresh [OF role fresh] obtain data where
    data: "User.email data = CreateUser.email p"
    and step: "create_user db p =
       (Inr (next_id db),
        db\<lparr>user := user db @ [(next_id db, data)], next_id := Suc (next_id db)\<rparr>)"
    by blast
  let ?db = "db\<lparr>user := user db @ [(next_id db, data)], next_id := Suc (next_id db)\<rparr>"
  have "\<forall>q \<in> set ps. \<forall>(i, u) \<in> set (user ?db). User.email u \<noteq> CreateUser.email q"
    using Cons.prems data by auto
  with Cons.prems have
    "fst (create_users ?db ps) = map Inr [next_id ?db ..< next_id ?db + length ps]"
    by (intro Cons.IH) auto
  moreover have "next_id ?db = Suc (next_id db)"
    by simp
  ultimately have rest:
    "fst (create_users ?db ps) = map Inr [Suc (next_id db) ..< Suc (next_id db) + length ps]"
    by (simp only:)
  have first: "fst (create_users db (p # ps)) = Inr (next_id db) # fst (create_users ?db ps)"
    using step by (simp add: split_beta)
  have "[next_id db ..< next_id db + length (p # ps)]
          = next_id db # [Suc (next_id db) ..< Suc (next_id db) + length ps]"
    by (subst upt_rec) simp
  with first rest show ?case
    by (simp only: list.map)
qed

section \<open>The claims\<close>

text \<open>
  C1. As stated the claim fails: the order check on the parsed datetimes runs before
  the overlap query, so a candidate whose end is not after its start is rejected with
  the validation error even when a stored roster of the user satisfies the overlap
  test.
\<close>

theorem create_roster_overlap_counterexample:
  "(3, shift) \<in> set (roster example_store)
   \<and> overlaps (new_roster ''2024-01-15T10:45:00'' ''2024-01-15T10:15:00'') shift
   \<and> fst (create_roster fromisoformat_seconds example_store
             (new_roster ''2024-01-15T10:45:00'' ''2024-01-15T10:15:00''))
       = Inl (HTTPException 400 ''End time must be after start time'')
   \<and> fst (create_roster fromisoformat_seconds example_store
             (new_roster ''2024-01-15T10:45:00'' ''2024-01-15T10:15:00''))
       \<noteq> Inl (HTTPException 400 ''Overlapping roster for this user'')"
  by code_simp

text \<open>
  C1, amended. Creating a roster fails with the overlap error (HTTP 400) exactly when
  both texts parse with the end strictly after the start and some stored roster of the
  same user has \<open>start_time < candidate.end_time\<close> and
  \<open>end_time > candidate.start_time\<close> as strings; it is accepted exactly when
  the texts pass that check and no stored roster overlaps, as for a candidate that
  starts at a stored end time.
\<close>

theorem create_roster_overlap_iff:
  "(fst (create_roster f db p) = Inl (HTTPException 400 ''Overlapping roster for this user'')
      \<longleftrightarrow> strictly_after f p \<and> (\<exists>(i, r) \<in> set (roster db). overlaps p r))
   \<and> ((\<exists>i. fst (create_roster f db p) = Inr i)
      \<longleftrightarrow> strictly_after f p \<and> \<not> (\<exists>(i, r) \<in> set (roster db). overlaps p r))"
proof (cases "strictly_after f p")
  case True
  then show ?thesis
    by (simp add: create_roster_checked)
next
  case False
  from create_roster_unchecked [OF this, of db] obtain e where
    "create_roster f db p = (Inl e, db)"
    "e \<in> {ValueError, TypeError, HTTPException 400 ''End time must be after start time''}"
    by blast
  with False show ?thesis
    by auto
qed

theorem create_roster_overlap_iff_witness:
  "strictly_after fromisoformat_seconds (new_roster ''2024-01-15T10:30:00'' ''2024-01-15T11:30:00'')
   \<and> (\<exists>(i, r) \<in> set (roster example_store).
         overlaps (new_roster ''2024-01-15T10:30:00'' ''2024-01-15T11:30:00'') r)
   \<and> fst (create_roster fromisoformat_seconds example_store
             (new_roster ''2024-01-15T10:30:00'' ''2024-01-15T11:30:00''))
       = Inl (HTTPException 400 ''Overlapping roster for this user'')
   \<and> strictly_after fromisoformat_seconds (new_roster ''2024-01-15T11:00:00'' ''2024-01-15T12:00:00'')
   \<and> \<not> (\<exists>(i, r) \<in> set (roster example_store).
         overlaps (new_roster ''2024-01-15T11:00:00'' ''2024-01-15T12:00:00'') r)
   \<and> (\<exists>i. fst (create_roster fromisoformat_seconds example_store
             (new_roster ''2024-01-15T11:00:00'' ''2024-01-15T12:00:00'')) = Inr i)"
proof -
  have a: "strictly_after fromisoformat_seconds
             (new_roster ''2024-01-15T10:30:00'' ''2024-01-15T11:30:00'')"
    by code_simp
  have b: "\<exists>(i, r) \<in> set (roster example_store).
             overlaps (new_roster ''2024-01-15T10:30:00'' ''2024-01-15T11:30:00'') r"
    by (simp add: example_store_def overlaps_def new_roster_def shift_def next_day_def)
  have c: "strictly_after fromisoformat_seconds
             (new_roster ''2024-01-15T11:00:00'' ''2024-01-15T12:00:00'')"
    by code_simp
  have d: "\<not> (\<exists>(i, r) \<in> set (roster example_store).
             overlaps (new_roster ''2024-01-15T11:00:00'' ''2024-01-15T12:00:00'') r)"
    by (simp add: example_store_def overlaps_def new_roster_def shift_def next_day_def)
  show ?thesis
    using a b c d
      create_roster_overlap_iff [of fromisoformat_seconds example_store
        "new_roster ''2024-01-15T10:30:00'' ''2024-01-15T11:30:00''"]
      create_roster_overlap_iff [of fromisoformat_seconds example_store
        "new_roster ''2024-01-15T11:00:00'' ''2024-01-15T12:00:00''"]
    by blast
qed

text \<open>
  C2. Whenever both texts of a roster payload parse and the parsed end is at or
  before the parsed start, the creation fails with HTTP 400 and the detail
  \<open>End time must be after start time\<close>, and the store is left as it was; the
  answer does not depend on the stored rosters, the check coming before the overlap
  query.
\<close>

theorem create_roster_end_not_after_start:
  assumes "f (CreateRoster.start_time p) = Some start"
    and "f (CreateRoster.end_time p) = Some finish"
    and "dt_le finish start = Inr True"
  shows "create_roster f db p
           = (Inl (HTTPException 400 ''End time must be after start time''), db)
         \<and> status_code (HTTPException 400 ''End time must be after start time'') = 400"
  using assms by (simp add: create_roster_def)

theorem create_roster_end_not_after_start_witness:
  "fromisoformat_seconds (CreateRoster.start_time
       (new_roster ''2024-01-15T10:30:00'' ''2024-01-15T10:30:00'')) = Some (Naive 63840911400000000)
   \<and> fromisoformat_seconds (CreateRoster.end_time
       (new_roster ''2024-01-15T10:30:00'' ''2024-01-15T10:30:00'')) = Some (Naive 63840911400000000)
   \<and> dt_le (Naive 63840911400000000) (Naive 63840911400000000) = Inr True
   \<and> create_roster fromisoformat_seconds example_store
        (new_roster ''2024-01-15T10:30:00'' ''2024-01-15T10:30:00'')
       = (Inl (HTTPException 400 ''End time must be after start time''), example_store)"
proof -
  have a: "fromisoformat_seconds (CreateRoster.start_time
       (new_roster ''2024-01-15T10:30:00'' ''2024-01-15T10:30:00'')) = Some (Naive 63840911400000000)"
    by code_simp
  have b: "fromisoformat_seconds (CreateRoster.end_time
       (new_roster ''2024-01-15T10:30:00'' ''2024-01-15T10:30:00'')) = Some (Naive 63840911400000000)"
    by code_simp
  have c: "dt_le (Naive 63840911400000000) (Naive 63840911400000000) = Inr True"
    by simp
  from create_roster_end_not_after_start [OF a b c, of example_store] a b c
  show ?thesis by blast
qed

text \<open>
  C3. Listing rosters with a non-empty date \<open>d\<close> returns exactly the stored rosters
  with \<open>start_time \<le> d + "T23:59:59"\<close> and \<open>end_time \<ge> d + "T00:00:00"\<close> as
  strings; with a user id as well, exactly those that also belong to that user.
\<close>

theorem list_rosters_date:
  "d \<noteq> [] \<Longrightarrow>
   list_rosters db None (Some d) = Inr (filter (\<lambda>(i, r). in_day d r) (roster db))
   \<and> (u \<noteq> [] \<longrightarrow>
        list_rosters db (Some u) (Some d)
          = Inr (filter (\<lambda>(i, r). Roster.user_id r = u \<and> in_day d r) (roster db)))"
  by (auto simp: list_rosters_eq intro: filter_cong)

theorem list_rosters_date_witness:
  "''2024-01-15'' \<noteq> [] \<and> ''u2'' \<noteq> []
   \<and> list_rosters example_store None (Some ''2024-01-15'') = Inr [(3, shift)]
   \<and> list_rosters example_store (Some ''u2'') (Some ''2024-01-15'') = Inr []"
  using list_rosters_date [of "''2024-01-15''" example_store "''u2''"]
  by (simp add: example_store_def in_day_def shift_def next_day_def)

text \<open>
  C4. For a payload with one of the three roles, creating a user fails with the
  duplicate error (HTTP 400) exactly when a stored user has the identical email text;
  otherwise the user is stored and the generated identifier returned. Payloads with
  pairwise distinct emails, none of them stored yet, all succeed one after the other
  and receive pairwise distinct identifiers.
\<close>

theorem create_user_duplicate_iff:
  "CreateUser.role p \<in> {''admin'', ''manager'', ''member''} \<Longrightarrow>
   (fst (create_user db p) = Inl (HTTPException 400 ''Email already exists'')
      \<longleftrightarrow> (\<exists>(i, u) \<in> set (user db). User.email u = CreateUser.email p))
   \<and> ((\<exists>(i, u) \<in> set (user db). User.email u = CreateUser.email p)
        \<or> (\<exists>data. create_user db p =
              (Inr (next_id db),
               db\<lparr>user := user db @ [(next_id db, data)], next_id := Suc (next_id db)\<rparr>)))
   \<and> ((\<forall>q \<in> set ps. CreateUser.role q \<in> {''admin'', ''manager'', ''member''})
        \<and> distinct (map CreateUser.email ps)
        \<and> (\<forall>q \<in> set ps. \<forall>(i, u) \<in> set (user db). User.email u \<noteq> CreateUser.email q)
      \<longrightarrow> (\<exists>ids. fst (create_users db ps) = map Inr ids
                 \<and> length ids = length ps \<and> distinct ids))"
proof (intro conjI impI)
  assume role: "CreateUser.role p \<in> {''admin'', ''manager'', ''member''}"
  show "fst (create_user db p) = Inl (HTTPException 400 ''Email already exists'')
      \<longleftrightarrow> (\<exists>(i, u) \<in> set (user db). User.email u = CreateUser.email p)"
  proof (cases "\<exists>(i, u) \<in> set (user db). User.email u = CreateUser.email p")
    case True
    with create_user_duplicate [OF role this] show ?thesis by simp
  next
    case False
    with create_user_fresh [OF role this] show ?thesis by auto
  qed
  show "(\<exists>(i, u) \<in> set (user db). User.email u = CreateUser.email p)
        \<or> (\<exists>data. create_user db p =
              (Inr (next_id db),
               db\<lparr>user := user db @ [(next_id db, data)], next_id := Suc (next_id db)\<rparr>))"
    using create_user_fresh [OF role] by blast
next
  assume "(\<forall>q \<in> set ps. CreateUser.role q \<in> {''admin'', ''manager'', ''member''})
        \<and> distinct (map CreateUser.email ps)
        \<and> (\<forall>q \<in> set ps. \<forall>(i, u) \<in> set (user db). User.email u \<noteq> CreateUser.email q)"
  then have "fst (create_users db ps) = map Inr [next_id db ..< next_id db + length ps]"
    by (intro create_users_fresh) auto
  then show "\<exists>ids. fst (create_users db ps) = map Inr ids
                 \<and> length ids = length ps \<and> distinct ids"
    by (intro exI [of _ "[next_id db ..< next_id db + length ps]"]) simp
qed

theorem create_user_duplicate_iff_witness:
  "CreateUser.role (new_user ''alice@example.com'' ''admin'') \<in> {''admin'', ''manager'', ''member''}
   \<and> (\<exists>(i, u) \<in> set (user example_store).
         User.email u = CreateUser.email (new_user ''alice@example.com'' ''admin''))
   \<and> fst (create_user example_store (new_user ''alice@example.com'' ''admin''))
       = Inl (HTTPException 400 ''Email already exists'')
   \<and> list_all (\<lambda>q. CreateUser.role q \<in> {''admin'', ''manager'', ''member''})
         [new_user ''bob@example.com'' ''manager'', new_user ''Alice@example.com'' ''member'']
   \<and> distinct (map CreateUser.email
         [new_user ''bob@example.com'' ''manager'', new_user ''Alice@example.com'' ''member''])
   \<and> list_all (\<lambda>q. list_all (\<lambda>(i, u). User.email u \<noteq> CreateUser.email q) (user example_store))
         [new_user ''bob@example.com'' ''manager'', new_user ''Alice@example.com'' ''member'']
   \<and> (\<exists>ids. fst (create_users example_store
          [new_user ''bob@example.com'' ''manager'', new_user ''Alice@example.com'' ''member''])
            = map Inr ids \<and> distinct ids)"
proof -
  let ?p = "new_user ''alice@example.com'' ''admin''"
  let ?ps = "[new_user ''bob@example.com'' ''manager'', new_user ''Alice@example.com'' ''member'']"
  have role: "CreateUser.role ?p \<in> {''admin'', ''manager'', ''member''}"
    by (simp add: new_user_def)
  have dup: "\<exists>(i, u) \<in> set (user example_store). User.email u = CreateUser.email ?p"
    by (simp add: example_store_def new_user_def alice_def)
  have roles: "\<forall>q \<in> set ?ps. CreateUser.role q \<in> {''admin'', ''manager'', ''member''}"
    by (simp add: new_user_def)
  have dist: "distinct (map CreateUser.email ?ps)"
    by (simp add: new_user_def)
  have fresh: "\<forall>q \<in> set ?ps. \<forall>(i, u) \<in> set (user example_store).
                 User.email u \<noteq> CreateUser.email q"
    by (simp add: example_store_def new_user_def alice_def)
  note claim = create_user_duplicate_iff [OF role, of example_store ?ps]
  from claim dup have rejected:
    "fst (create_user example_store ?p) = Inl (HTTPException 400 ''Email already exists'')"
    by blast
  from claim roles dist fresh have accepted:
    "\<exists>ids. fst (create_users example_store ?ps) = map Inr ids \<and> distinct ids"
    by blast
  from role dup rejected roles dist fresh accepted show ?thesis
    unfolding list_all_iff by blast
qed

text \<open>
  C5. Creating a task type fails with the duplicate error (HTTP 400) exactly when some
  stored task type has the same name or, the candidate's code being provided and not
  empty, the same code; either match alone is enough, and the store is then left as
  it was. Without a code only the name is checked. Otherwise the creation succeeds:
  the task type is appended to the collection under a new identifier, which is
  returned.
\<close>

theorem create_tasktype_duplicate_iff:
  "(fst (create_tasktype db p) = Inl (HTTPException 400 ''Task type with same name/code exists'')
      \<longleftrightarrow> (\<exists>(i, t) \<in> set (tasktype db).
             Tasktype.name t = CreateTasktype.name p
             \<or> (truthy (CreateTasktype.code p) \<and> Tasktype.code t = CreateTasktype.code p)))
   \<and> ((\<exists>i. fst (create_tasktype db p) = Inr i)
      \<longleftrightarrow> \<not> (\<exists>(i, t) \<in> set (tasktype db).
             Tasktype.name t = CreateTasktype.name p
             \<or> (truthy (CreateTasktype.code p) \<and> Tasktype.code t = CreateTasktype.code p)))
   \<and> (\<not> truthy (CreateTasktype.code p) \<longrightarrow>
        (fst (create_tasktype db p) = Inl (HTTPException 400 ''Task type with same name/code exists'')
           \<longleftrightarrow> (\<exists>(i, t) \<in> set (tasktype db). Tasktype.name t = CreateTasktype.name p)))
   \<and> ((\<exists>(i, t) \<in> set (tasktype db).
             Tasktype.name t = CreateTasktype.name p
             \<or> (truthy (CreateTasktype.code p) \<and> Tasktype.code t = CreateTasktype.code p))
        \<longrightarrow> create_tasktype db p
              = (Inl (HTTPException 400 ''Task type with same name/code exists''), db))
   \<and> (\<not> (\<exists>(i, t) \<in> set (tasktype db).
             Tasktype.name t = CreateTasktype.name p
             \<or> (truthy (CreateTasktype.code p) \<and> Tasktype.code t = CreateTasktype.code p))
        \<longrightarrow> create_tasktype db p
              = (Inr (next_id db),
                 db\<lparr>tasktype := tasktype db @ [(next_id db, TasktypeSchema p)],
                    next_id := Suc (next_id db)\<rparr>)
            \<and> Tasktype.name (TasktypeSchema p) = CreateTasktype.name p
            \<and> Tasktype.code (TasktypeSchema p) = CreateTasktype.code p
            \<and> Tasktype.description (TasktypeSchema p) = CreateTasktype.description p
            \<and> Tasktype.active (TasktypeSchema p) = CreateTasktype.active p)"
  by (simp add: create_tasktype_eq TasktypeSchema_def)

theorem create_tasktype_duplicate_iff_witness:
  "(\<exists>(i, t) \<in> set (tasktype example_store).
       Tasktype.name t = CreateTasktype.name (new_tasktype ''Other'' (Some ''DEV''))
       \<or> (truthy (CreateTasktype.code (new_tasktype ''Other'' (Some ''DEV'')))
          \<and> Tasktype.code t = CreateTasktype.code (new_tasktype ''Other'' (Some ''DEV''))))
   \<and> create_tasktype example_store (new_tasktype ''Other'' (Some ''DEV''))
       = (Inl (HTTPException 400 ''Task type with same name/code exists''), example_store)
   \<and> \<not> truthy (CreateTasktype.code (new_tasktype ''Other'' (Some [])))
   \<and> \<not> (\<exists>(i, t) \<in> set (tasktype example_store).
       Tasktype.name t = CreateTasktype.name (new_tasktype ''Other'' (Some []))
       \<or> (truthy (CreateTasktype.code (new_tasktype ''Other'' (Some [])))
          \<and> Tasktype.code t = CreateTasktype.code (new_tasktype ''Other'' (Some []))))
   \<and> create_tasktype example_store (new_tasktype ''Other'' (Some []))
       = (Inr 5,
          example_store\<lparr>tasktype := [(1, dev), (2, qa),
               (5, \<lparr>Tasktype.name = ''Other'', Tasktype.code = Some [],
                    Tasktype.description = None, Tasktype.active = True\<rparr>)],
             next_id := 6\<rparr>)"
proof -
  have dup: "\<exists>(i, t) \<in> set (tasktype example_store).
       Tasktype.name t = CreateTasktype.name (new_tasktype ''Other'' (Some ''DEV''))
       \<or> (truthy (CreateTasktype.code (new_tasktype ''Other'' (Some ''DEV'')))
          \<and> Tasktype.code t = CreateTasktype.code (new_tasktype ''Other'' (Some ''DEV'')))"
    by (simp add: example_store_def new_tasktype_def dev_def qa_def)
  have empty: "\<not> truthy (CreateTasktype.code (new_tasktype ''Other'' (Some [])))"
    by (simp add: new_tasktype_def)
  have fresh: "\<not> (\<exists>(i, t) \<in> set (tasktype example_store).
       Tasktype.name t = CreateTasktype.name (new_tasktype ''Other'' (Some []))
       \<or> (truthy (CreateTasktype.code (new_tasktype ''Other'' (Some [])))
          \<and> Tasktype.code t = CreateTasktype.code (new_tasktype ''Other'' (Some []))))"
    by (simp add: example_store_def new_tasktype_def dev_def qa_def)
  note rejected = create_tasktype_duplicate_iff
    [of example_store "new_tasktype ''Other'' (Some ''DEV'')"]
  note accepted = create_tasktype_duplicate_iff
    [of example_store "new_tasktype ''Other'' (Some [])"]
  from rejected dup have r: "create_tasktype example_store (new_tasktype ''Other'' (Some ''DEV''))
       = (Inl (HTTPException 400 ''Task type with same name/code exists''), example_store)"
    by blast
  from accepted fresh have "create_tasktype example_store (new_tasktype ''Other'' (Some []))
       = (Inr (next_id example_store),
          example_store\<lparr>tasktype := tasktype example_store
               @ [(next_id example_store, TasktypeSchema (new_tasktype ''Other'' (Some [])))],
             next_id := Suc (next_id example_store)\<rparr>)"
    by blast
  then have a: "create_tasktype example_store (new_tasktype ''Other'' (Some []))
       = (Inr 5,
          example_store\<lparr>tasktype := [(1, dev), (2, qa),
               (5, \<lparr>Tasktype.name = ''Other'', Tasktype.code = Some [],
                    Tasktype.description = None, Tasktype.active = True\<rparr>)],
             next_id := 6\<rparr>)"
    by (simp add: example_store_def new_tasktype_def TasktypeSchema_def)
  from dup r empty fresh a show ?thesis
    by blast
qed

text \<open>
  C6. Every creation is all or nothing: either it answers with an identifier and the
  store differs from the one before by exactly one document, appended under that
  identifier to the handler's own collection, or it raises and the store is the one
  before.
\<close>

theorem create_all_or_nothing:
  "(case create_user db pu of
      (Inl e, db') \<Rightarrow> db' = db
    | (Inr i, db') \<Rightarrow> (\<exists>d. user db' = user db @ [(i, d)])
                       \<and> tasktype db' = tasktype db \<and> roster db' = roster db)
   \<and> (case create_tasktype db pt of
      (Inl e, db') \<Rightarrow> db' = db
    | (Inr i, db') \<Rightarrow> (\<exists>d. tasktype db' = tasktype db @ [(i, d)])
                       \<and> user db' = user db \<and> roster db' = roster db)
   \<and> (case create_roster f db pr of
      (Inl e, db') \<Rightarrow> db' = db
    | (Inr i, db') \<Rightarrow> (\<exists>d. roster db' = roster db @ [(i, d)])
                       \<and> user db' = user db \<and> tasktype db' = tasktype db)"
proof (intro conjI)
  show "case create_user db pu of
      (Inl e, db') \<Rightarrow> db' = db
    | (Inr i, db') \<Rightarrow> (\<exists>d. user db' = user db @ [(i, d)])
                       \<and> tasktype db' = tasktype db \<and> roster db' = roster db"
  proof (cases "CreateUser.role pu \<in> {''admin'', ''manager'', ''member''}")
    case False
    then show ?thesis by (simp add: create_user_bad_role)
  next
    case True
    show ?thesis
    proof (cases "\<exists>(i, u) \<in> set (user db). User.email u = CreateUser.email pu")
      case True
      with create_user_duplicate [OF \<open>CreateUser.role pu \<in> _\<close> this] show ?thesis by simp
    next
      case False
      with create_user_fresh [OF \<open>CreateUser.role pu \<in> _\<close> this] show ?thesis by auto
    qed
  qed
  show "case create_tasktype db pt of
      (Inl e, db') \<Rightarrow> db' = db
    | (Inr i, db') \<Rightarrow> (\<exists>d. tasktype db' = tasktype db @ [(i, d)])
                       \<and> user db' = user db \<and> roster db' = roster db"
    by (simp add: create_tasktype_eq)
  show "case create_roster f db pr of
      (Inl e, db') \<Rightarrow> db' = db
    | (Inr i, db') \<Rightarrow> (\<exists>d. roster db' = roster db @ [(i, d)])
                       \<and> user db' = user db \<and> tasktype db' = tasktype db"
  proof (cases "strictly_after f pr")
    case True
    then show ?thesis by (simp add: create_roster_checked)
  next
    case False
    from create_roster_unchecked [OF this, of db] show ?thesis by auto
  qed
qed

text \<open>
  C7. The code at a payload whose start text is no datetime: the \<open>ValueError\<close> of
  the parser leaves the handler, which the framework reports as status 500, not as
  the HTTP 400 of the claim; nothing is written.
\<close>

theorem create_roster_unparsable_is_500:
  "fromisoformat_seconds ''tomorrow'' = None
   \<and> create_roster fromisoformat_seconds example_store
        (new_roster ''tomorrow'' ''2024-01-15T12:00:00'')
       = (Inl ValueError, example_store)
   \<and> status_code ValueError = 500"
  by (simp add: create_roster_unparsable fromisoformat_seconds_def new_roster_def)

text \<open>
  C8. The code at a payload whose role is none of the three: the validation error of
  the schema constructor leaves the handler, which the framework reports as status
  500, not as the HTTP 400 of the claim; nothing is written.
\<close>

theorem create_user_bad_role_is_500:
  "CreateUser.role (new_user ''bob@example.com'' ''superuser'')
     \<notin> {''admin'', ''manager'', ''member''}
   \<and> create_user example_store (new_user ''bob@example.com'' ''superuser'')
       = (Inl PydanticValidationError, example_store)
   \<and> status_code PydanticValidationError = 500"
  by (simp add: create_user_bad_role new_user_def)

text \<open>
  C9. As stated the claim fails: the listing handlers never call \<open>oid\<close>. A manager
  id that is no identifier of the store is matched as text, and the request succeeds.
\<close>

theorem list_users_unparsable_id_counterexample:
  "ObjectId ''boss'' = None
   \<and> list_users example_store None (Some ''boss'') = Inr [(0, alice)]
   \<and> list_rosters example_store (Some ''boss'') None = Inr []"
  by (simp add: ObjectId_def list_users_eq list_rosters_eq example_store_def alice_def
      shift_def next_day_def)

text \<open>
  C9, amended. The helper \<open>oid\<close> answers a text that cannot be parsed into the
  store's identifier type with HTTP 400 and the detail \<open>Invalid id format\<close>. No
  listing calls it: an identifier given as a filter, parsable or not, is compared as
  text with the stored field, and the listing returns the matching documents.
\<close>

theorem listing_ids_are_text:
  "(ObjectId s = None \<longrightarrow> oid s = Inl (HTTPException 400 ''Invalid id format''))
   \<and> (m \<noteq> [] \<longrightarrow>
        list_users db None (Some m)
          = Inr (filter (\<lambda>(i, u). User.manager_id u = Some m) (user db)))
   \<and> (u \<noteq> [] \<longrightarrow>
        list_rosters db (Some u) None
          = Inr (filter (\<lambda>(i, r). Roster.user_id r = u) (roster db)))"
  by (auto simp: oid_def list_users_eq list_rosters_eq intro: filter_cong)

theorem listing_ids_are_text_witness:
  "ObjectId ''boss'' = None \<and> oid ''boss'' = Inl (HTTPException 400 ''Invalid id format'')
   \<and> ''boss'' \<noteq> [] \<and> list_users example_store None (Some ''boss'') = Inr [(0, alice)]
   \<and> ''u2'' \<noteq> [] \<and> list_rosters example_store (Some ''u2'') None = Inr [(4, next_day)]"
proof -
  have a: "ObjectId ''boss'' = None"
    by (simp add: ObjectId_def)
  have b: "''boss'' \<noteq> []" and c: "''u2'' \<noteq> []"
    by simp_all
  from listing_ids_are_text [of "''boss''" "''boss''" example_store "''u2''"] a b c
  show ?thesis
    by (simp add: example_store_def alice_def shift_def next_day_def)
qed

text \<open>
  C10. An empty text as query parameter counts as no parameter: listing users with an
  empty role or an empty manager id, or rosters with an empty user id, gives what the
  listing without that parameter gives, all users where nothing else is asked.
  Listing task types with \<open>active\<close> false gives exactly the task types that are not
  active, and without the parameter all of them.
\<close>

theorem empty_parameter_is_absent:
  "list_users db (Some []) m = list_users db None m
   \<and> list_users db r (Some []) = list_users db r None
   \<and> list_users db (Some []) None = Inr (user db)
   \<and> list_users db None (Some []) = Inr (user db)
   \<and> list_rosters db (Some []) d = list_rosters db None d
   \<and> list_rosters db (Some []) None = Inr (roster db)
   \<and> list_tasktypes db (Some False)
       = Inr (filter (\<lambda>(i, t). \<not> Tasktype.active t) (tasktype db))
   \<and> list_tasktypes db None = Inr (tasktype db)"
  by (simp add: list_users_eq list_rosters_eq list_tasktypes_eq)

end
